theory Spec2Isabelle
  imports Main
begin

section \<open>INNOVISION 2K26 countdown page: the model of script.js\<close>

text \<open>
  The script holds one class, \<open>CountdownTimer\<close>, and the page initialisation around it.
  The numbers of the script are instants in milliseconds and counts derived from them.
  A time value of a \<open>Date\<close> is an integer of magnitude at most \<open>8.64 * 10 ^ 15\<close>, and
  JavaScript numbers hold every integer of magnitude up to \<open>2 ^ 53\<close> exactly, so the
  numbers are modelled by \<open>int\<close>: \<open>Math.floor (x / c)\<close> is \<open>div\<close>, and the remainder
  operator, which the script applies to non-negative values only, is \<open>mod\<close>.

  The clock (\<open>new Date().getTime()\<close>) is an input: every function that reads it takes
  the instant it reads as the parameter \<open>now\<close>. The period of the interval timer is real
  time and is not modelled; a tick is a call of the timer's callback at some instant.
  Console texts are kept without their pictographs.
\<close>

subsection \<open>The page: elements, the document, timers, the console\<close>

text \<open>
  Elements are objects on a heap, addressed by references, so that two lookups may return
  the same element. Only the properties the script writes are kept.
\<close>

type_synonym ref = nat

record element =
  textContent :: string
  disabled :: bool
  style_opacity :: string
  style_cursor :: string

text \<open>Everything the script does to its surroundings, in the order it does it.\<close>

datatype effect =
    ConsoleLog string
  | ConsoleError string
  | SetTextContent ref string
  | SetDisabled ref bool
  | SetStyle ref string string
  | SetInterval nat
  | ClearInterval nat
  | AddEventListener ref string

text \<open>
  \<open>byId\<close> is \<open>document.getElementById\<close>, \<open>comingSoonH2\<close> the result of
  \<open>document.querySelector('.coming-soon h2')\<close>; \<open>None\<close> is \<open>null\<close>.
  \<open>active\<close> holds the handles of the interval timers the host still fires,
  \<open>nextHandle\<close> the handle the next \<open>setInterval\<close> returns.
\<close>

record world =
  byId :: "string \<Rightarrow> ref option"
  comingSoonH2 :: "ref option"
  heap :: "ref \<Rightarrow> element"
  active :: "nat set"
  nextHandle :: nat
  effects :: "effect list"

datatype error = TypeError

subsection \<open>Configuration\<close>

definition UPDATE_INTERVAL :: int where
  "UPDATE_INTERVAL = 1000"

subsection \<open>The class CountdownTimer\<close>

record CountdownTimer =
  targetDate :: int
  timerInterval :: "nat option"
  daysElement :: "ref option"
  hoursElement :: "ref option"
  minutesElement :: "ref option"
  secondsElement :: "ref option"

text \<open>A call either returns or throws; both leave the object and the page as they are then.\<close>

datatype outcome =
    Returned CountdownTimer world
  | Threw error CountdownTimer world

record CountdownState =
  days :: int
  hours :: int
  minutes :: int
  seconds :: int
  isExpired :: bool

definition emit :: "effect \<Rightarrow> world \<Rightarrow> world" where
  "emit e w = w\<lparr>effects := effects w @ [e]\<rparr>"

text \<open>\<open>validateElements\<close>: one diagnostic when a slot is \<open>null\<close>; nothing else changes.\<close>

definition validateElements :: "CountdownTimer \<Rightarrow> world \<Rightarrow> world" where
  "validateElements t w =
     (let elements = [daysElement t, hoursElement t, minutesElement t, secondsElement t]
      in if None \<in> set elements
         then emit (ConsoleError ''ERROR: One or more countdown timer elements not found in DOM'') w
         else w)"

definition constructor :: "int \<Rightarrow> world \<Rightarrow> CountdownTimer \<times> world" where
  "constructor target w =
     (let t = \<lparr>targetDate = target, timerInterval = None,
                daysElement = byId w ''days'', hoursElement = byId w ''hours'',
                minutesElement = byId w ''minutes'', secondsElement = byId w ''seconds''\<rparr>
      in (t, validateElements t w))"

definition calculateTimeRemaining :: "CountdownTimer \<Rightarrow> int \<Rightarrow> CountdownState" where
  "calculateTimeRemaining t now =
     (let timeRemaining = targetDate t - now
      in if timeRemaining \<le> 0
         then \<lparr>days = 0, hours = 0, minutes = 0, seconds = 0, isExpired = True\<rparr>
         else
           (let totalSeconds = timeRemaining div 1000;
                d = totalSeconds div (24 * 60 * 60);
                h = (totalSeconds mod (24 * 60 * 60)) div (60 * 60);
                m = (totalSeconds mod (60 * 60)) div 60;
                s = totalSeconds mod 60
            in \<lparr>days = d, hours = h, minutes = m, seconds = s, isExpired = False\<rparr>))"

subsection \<open>formatNumber: String(num).padStart(2, '0')\<close>

definition digit_char :: "nat \<Rightarrow> char" where
  "digit_char d = ''0123456789'' ! d"

text \<open>
  \<open>String\<close> applied to an integer: its decimal digits, with a minus sign below zero
  (what JavaScript prints for every integer it holds exactly).
\<close>

fun String_nat :: "nat \<Rightarrow> string" where
  "String_nat n =
     (if n < 10 then [digit_char n] else String_nat (n div 10) @ [digit_char (n mod 10)])"

declare String_nat.simps [simp del]

definition String_num :: "int \<Rightarrow> string" where
  "String_num num =
     (if num < 0 then CHR ''-'' # String_nat (nat (- num)) else String_nat (nat num))"

text \<open>
  \<open>padStart\<close>: a string that is long enough, or an empty filler, gives the string back;
  otherwise the filler is repeated, cut to the missing length and put in front.
\<close>

definition padStart :: "string \<Rightarrow> nat \<Rightarrow> string \<Rightarrow> string" where
  "padStart s maxLength fillString =
     (if maxLength \<le> length s \<or> fillString = [] then s
      else (let fillLen = maxLength - length s
            in take fillLen (concat (replicate fillLen fillString)) @ s))"

definition formatNumber :: "int \<Rightarrow> string" where
  "formatNumber num = padStart (String_num num) 2 ''0''"

text \<open>Reading a digit string back, to say that no digit of a formatted value is lost.\<close>

definition digit_value :: "char \<Rightarrow> nat" where
  "digit_value c = of_char c - 48"

definition decimal_value :: "string \<Rightarrow> nat" where
  "decimal_value s = foldl (\<lambda>acc c. 10 * acc + digit_value c) 0 s"

definition is_digit :: "char \<Rightarrow> bool" where
  "is_digit c = (c \<in> set ''0123456789'')"

subsection \<open>Writing the page\<close>

text \<open>
  An assignment to a property of \<open>null\<close> throws a \<open>TypeError\<close>; \<open>set_textContent\<close>
  gives \<open>None\<close> then.
\<close>

definition write_text :: "ref \<Rightarrow> string \<Rightarrow> world \<Rightarrow> world" where
  "write_text r s w =
     emit (SetTextContent r s) (w\<lparr>heap := (heap w)(r := (heap w r)\<lparr>textContent := s\<rparr>)\<rparr>)"

definition set_textContent :: "ref option \<Rightarrow> string \<Rightarrow> world \<Rightarrow> world option" where
  "set_textContent el s w = (case el of None \<Rightarrow> None | Some r \<Rightarrow> Some (write_text r s w))"

definition truthy :: "nat option \<Rightarrow> bool" where
  "truthy v = (case v of None \<Rightarrow> False | Some h \<Rightarrow> h \<noteq> 0)"

definition stop :: "CountdownTimer \<Rightarrow> world \<Rightarrow> CountdownTimer \<times> world" where
  "stop t w =
     (case timerInterval t of
        None \<Rightarrow> (t, w)
      | Some h \<Rightarrow>
          if h \<noteq> 0
          then (t\<lparr>timerInterval := None\<rparr>,
                emit (ConsoleLog ''Countdown timer stopped'')
                  (emit (ClearInterval h) (w\<lparr>active := active w - {h}\<rparr>)))
          else (t, w))"

definition disable_notify :: "ref \<Rightarrow> world \<Rightarrow> world" where
  "disable_notify b w =
     (let w1 = emit (SetDisabled b True) (w\<lparr>heap := (heap w)(b := (heap w b)\<lparr>disabled := True\<rparr>)\<rparr>);
          w2 = write_text b ''Event Live'' w1;
          w3 = emit (SetStyle b ''opacity'' ''0.6'')
                 (w2\<lparr>heap := (heap w2)(b := (heap w2 b)\<lparr>style_opacity := ''0.6''\<rparr>)\<rparr>);
          w4 = emit (SetStyle b ''cursor'' ''not-allowed'')
                 (w3\<lparr>heap := (heap w3)(b := (heap w3 b)\<lparr>style_cursor := ''not-allowed''\<rparr>)\<rparr>)
      in w4)"

definition handleExpiredEvent :: "CountdownTimer \<Rightarrow> world \<Rightarrow> CountdownTimer \<times> world" where
  "handleExpiredEvent t w =
     (let w1 = emit (ConsoleLog ''Event date reached!'') w;
          (t2, w2) = stop t w1;
          w3 = (case comingSoonH2 w2 of
                  None \<Rightarrow> w2
                | Some c \<Rightarrow> write_text c ''Event Started!'' w2);
          w4 = (case byId w3 ''notify-btn'' of
                  None \<Rightarrow> w3
                | Some b \<Rightarrow> disable_notify b w3)
      in (t2, w4))"

text \<open>
  \<open>updateDisplay\<close>: the four assignments in the order of the source, each throwing on a
  \<open>null\<close> slot with the earlier ones done; then the expiry handling when the sample
  is expired.
\<close>

definition updateDisplay :: "int \<Rightarrow> CountdownTimer \<Rightarrow> world \<Rightarrow> outcome" where
  "updateDisplay now t w =
     (let timeRemaining = calculateTimeRemaining t now
      in case set_textContent (daysElement t) (formatNumber (days timeRemaining)) w of
           None \<Rightarrow> Threw TypeError t w
         | Some w1 \<Rightarrow>
       (case set_textContent (hoursElement t) (formatNumber (hours timeRemaining)) w1 of
           None \<Rightarrow> Threw TypeError t w1
         | Some w2 \<Rightarrow>
       (case set_textContent (minutesElement t) (formatNumber (minutes timeRemaining)) w2 of
           None \<Rightarrow> Threw TypeError t w2
         | Some w3 \<Rightarrow>
       (case set_textContent (secondsElement t) (formatNumber (seconds timeRemaining)) w3 of
           None \<Rightarrow> Threw TypeError t w3
         | Some w4 \<Rightarrow>
             if isExpired timeRemaining
             then (let (t5, w5) = handleExpiredEvent t w4 in Returned t5 w5)
             else Returned t w4))))"

text \<open>
  \<open>start\<close>: one immediate update, whose exception leaves \<open>start\<close> before any timer is
  set; then \<open>setInterval\<close>, whose handle overwrites the field.
\<close>

definition start :: "int \<Rightarrow> CountdownTimer \<Rightarrow> world \<Rightarrow> outcome" where
  "start now t w =
     (case updateDisplay now t w of
        Threw e t1 w1 \<Rightarrow> Threw e t1 w1
      | Returned t1 w1 \<Rightarrow>
          (let h = nextHandle w1;
               w2 = emit (SetInterval h) (w1\<lparr>active := insert h (active w1), nextHandle := Suc h\<rparr>);
               t2 = t1\<lparr>timerInterval := Some h\<rparr>
           in Returned t2 (emit (ConsoleLog ''Countdown timer started. Target date:'') w2)))"

definition reset :: "int \<Rightarrow> CountdownTimer \<Rightarrow> world \<Rightarrow> outcome" where
  "reset now t w = (let (t1, w1) = stop t w in start now t1 w1)"

text \<open>
  The callback given to \<open>setInterval\<close>: the host runs it for handle \<open>h\<close> only while
  \<open>h\<close> has not been cleared.
\<close>

definition fire :: "nat \<Rightarrow> int \<Rightarrow> CountdownTimer \<Rightarrow> world \<Rightarrow> outcome" where
  "fire h now t w = (if h \<in> active w then updateDisplay now t w else Returned t w)"

subsection \<open>Page initialisation\<close>

definition initializeCTAButtons :: "world \<Rightarrow> world" where
  "initializeCTAButtons w =
     (case byId w ''sponsors-btn'' of
        None \<Rightarrow> emit (ConsoleError ''ERROR: Sponsors button element not found'') w
      | Some b \<Rightarrow> emit (AddEventListener b ''keypress'') (emit (AddEventListener b ''click'') w))"

definition initializeApp :: "int \<Rightarrow> int \<Rightarrow> world \<Rightarrow> outcome" where
  "initializeApp EVENT_DATE now w =
     (let w0 = emit (ConsoleLog ''Initializing INNOVISION 2K26 Coming Soon Page'') w;
          (timer, w1) = constructor EVENT_DATE w0
      in case start now timer w1 of
           Threw e t2 w2 \<Rightarrow> Threw e t2 w2
         | Returned t2 w2 \<Rightarrow>
             Returned t2 (emit (ConsoleLog ''Application initialized successfully'')
                            (initializeCTAButtons w2)))"

subsection \<open>Observations used by the properties\<close>

definition totalOf :: "CountdownState \<Rightarrow> int" where
  "totalOf s = days s * 86400 + hours s * 3600 + minutes s * 60 + seconds s"

definition slots :: "CountdownTimer \<Rightarrow> ref option list" where
  "slots t = [daysElement t, hoursElement t, minutesElement t, secondsElement t]"

text \<open>The writes of a trace that go to one of the four numeric slots.\<close>

fun slot_writes :: "CountdownTimer \<Rightarrow> effect list \<Rightarrow> effect list" where
  "slot_writes t [] = []"
| "slot_writes t (SetTextContent r s # es) =
     (if Some r \<in> set (slots t) then SetTextContent r s # slot_writes t es
      else slot_writes t es)"
| "slot_writes t (e # es) = slot_writes t es"

definition outcome_timer :: "outcome \<Rightarrow> CountdownTimer" where
  "outcome_timer out = (case out of Returned t w \<Rightarrow> t | Threw e t w \<Rightarrow> t)"

definition outcome_world :: "outcome \<Rightarrow> world" where
  "outcome_world out = (case out of Returned t w \<Rightarrow> w | Threw e t w \<Rightarrow> w)"

definition has_thrown :: "outcome \<Rightarrow> bool" where
  "has_thrown out = (case out of Returned t w \<Rightarrow> False | Threw e t w \<Rightarrow> True)"

text \<open>The session samples periodically through the handle it holds.\<close>

definition sampling :: "CountdownTimer \<Rightarrow> world \<Rightarrow> bool" where
  "sampling t w = (case timerInterval t of None \<Rightarrow> False | Some h \<Rightarrow> h \<noteq> 0 \<and> h \<in> active w)"

subsection \<open>Sequences of calls, and two pages to run them on\<close>

text \<open>A later call runs only when the earlier one returned; an exception ends the sequence.\<close>

definition then_do :: "outcome \<Rightarrow> (CountdownTimer \<Rightarrow> world \<Rightarrow> outcome) \<Rightarrow> outcome" where
  "then_do out f = (case out of Returned t w \<Rightarrow> f t w | Threw e t w \<Rightarrow> Threw e t w)"

definition returning :: "CountdownTimer \<times> world \<Rightarrow> outcome" where
  "returning p = Returned (fst p) (snd p)"

definition blank_element :: element where
  "blank_element = \<lparr>textContent = [], disabled = False, style_opacity = [], style_cursor = []\<rparr>"

definition page_of :: "(string \<times> ref) list \<Rightarrow> ref option \<Rightarrow> world" where
  "page_of ids h2 =
     \<lparr>byId = map_of ids, comingSoonH2 = h2, heap = (\<lambda>r. blank_element),
      active = {}, nextHandle = 1, effects = []\<rparr>"

text \<open>The page with every element the script looks up, and the same page without \<open>#days\<close>.\<close>

definition full_page :: world where
  "full_page =
     page_of [(''days'', 1), (''hours'', 2), (''minutes'', 3), (''seconds'', 4),
              (''notify-btn'', 5), (''sponsors-btn'', 6)] (Some 7)"

definition page_without_days :: world where
  "page_without_days =
     page_of [(''hours'', 2), (''minutes'', 3), (''seconds'', 4),
              (''notify-btn'', 5), (''sponsors-btn'', 6)] (Some 7)"

definition expiring_timer :: CountdownTimer where
  "expiring_timer = fst (constructor 5000 full_page)"

definition final_second_timer :: CountdownTimer where
  "final_second_timer = fst (constructor 500 full_page)"

definition scenario_timer :: CountdownTimer where
  "scenario_timer = fst (constructor 90061000 full_page)"

text \<open>\<open>start\<close> at instant 0, \<open>start\<close> again at instant 10, then \<open>stop\<close>.\<close>

definition double_start_then_stop :: outcome where
  "double_start_then_stop =
     then_do (then_do (start 0 expiring_timer full_page) (start 10))
       (\<lambda>t w. returning (stop t w))"

subsection \<open>The traces of the expiry handling, part by part\<close>

definition zeros_written :: "ref \<Rightarrow> ref \<Rightarrow> ref \<Rightarrow> ref \<Rightarrow> world \<Rightarrow> world" where
  "zeros_written d h m s w =
     write_text s ''00'' (write_text m ''00'' (write_text h ''00'' (write_text d ''00'' w)))"

definition stop_effects :: "CountdownTimer \<Rightarrow> effect list" where
  "stop_effects t =
     (case timerInterval t of
        None \<Rightarrow> []
      | Some k \<Rightarrow> if k \<noteq> 0 then [ClearInterval k, ConsoleLog ''Countdown timer stopped''] else [])"

definition status_effects :: "world \<Rightarrow> effect list" where
  "status_effects w =
     (case comingSoonH2 w of None \<Rightarrow> [] | Some c \<Rightarrow> [SetTextContent c ''Event Started!''])"

definition notify_effects :: "world \<Rightarrow> effect list" where
  "notify_effects w =
     (case byId w ''notify-btn'' of
        None \<Rightarrow> []
      | Some b \<Rightarrow> [SetDisabled b True, SetTextContent b ''Event Live'',
                   SetStyle b ''opacity'' ''0.6'', SetStyle b ''cursor'' ''not-allowed''])"

subsection \<open>Calls on a session, one after the other\<close>

text \<open>
  What can happen to a session: its three methods, the host firing the callback of
  handle \<open>h\<close> (\<open>Tick h\<close>, which runs only while \<open>h\<close> is active), and a direct call of
  the tick handler (\<open>Update\<close>). Each call that reads the clock carries the instant it reads.
\<close>

datatype call = Start int | Stop | Reset int | Tick nat int | Update int

fun run_call :: "call \<Rightarrow> CountdownTimer \<Rightarrow> world \<Rightarrow> outcome" where
  "run_call (Start n) t w = start n t w"
| "run_call Stop t w = returning (stop t w)"
| "run_call (Reset n) t w = reset n t w"
| "run_call (Tick h n) t w = fire h n t w"
| "run_call (Update n) t w = updateDisplay n t w"

fun run_calls :: "call list \<Rightarrow> CountdownTimer \<Rightarrow> world \<Rightarrow> outcome" where
  "run_calls [] t w = Returned t w"
| "run_calls (c # cs) t w = then_do (run_call c t w) (run_calls cs)"

text \<open>The call reads an instant that is not before \<open>target\<close> (\<open>Stop\<close> reads none).\<close>

fun not_before :: "int \<Rightarrow> call \<Rightarrow> bool" where
  "not_before target (Start n) = (target \<le> n)"
| "not_before target Stop = True"
| "not_before target (Reset n) = (target \<le> n)"
| "not_before target (Tick h n) = (target \<le> n)"
| "not_before target (Update n) = (target \<le> n)"

text \<open>The call takes a sample of the engine when it runs on the page \<open>w\<close>.\<close>

fun samples :: "call \<Rightarrow> world \<Rightarrow> bool" where
  "samples (Start n) w = True"
| "samples Stop w = False"
| "samples (Reset n) w = True"
| "samples (Tick h n) w = (h \<in> active w)"
| "samples (Update n) w = True"

text \<open>The handle that \<open>stop\<close> would clear: the one in the field, when the field is truthy.\<close>

definition held :: "CountdownTimer \<Rightarrow> nat set" where
  "held t = (case timerInterval t of None \<Rightarrow> {} | Some h \<Rightarrow> if h \<noteq> 0 then {h} else {})"

text \<open>
  \<open>settled t w\<close>: the four slots of the session are present and the page already shows
  the expired state, so that the writes of an expired update change no element.
  \<open>kept t w t' w'\<close>: from \<open>(t, w)\<close> to \<open>(t', w')\<close> the session kept its target and its
  slots, and the document and its elements are the same.
\<close>

definition settled :: "CountdownTimer \<Rightarrow> world \<Rightarrow> bool" where
  "settled t w =
     (case (daysElement t, hoursElement t, minutesElement t, secondsElement t) of
        (Some d, Some h, Some m, Some s) \<Rightarrow>
          heap (snd (handleExpiredEvent t (zeros_written d h m s w))) = heap w
      | _ \<Rightarrow> False)"

definition kept :: "CountdownTimer \<Rightarrow> world \<Rightarrow> CountdownTimer \<Rightarrow> world \<Rightarrow> bool" where
  "kept t w t' w' =
     (slots t' = slots t \<and> targetDate t' = targetDate t
      \<and> heap w' = heap w \<and> byId w' = byId w \<and> comingSoonH2 w' = comingSoonH2 w)"

section \<open>The countdown engine\<close>

lemma decompose_seconds:
  fixes T :: int
  shows "T div 86400 * 86400 + T mod 86400 div 3600 * 3600 + T mod 3600 div 60 * 60 + T mod 60 = T"
proof -
  have a: "T mod 86400 mod 3600 = T mod 3600"
    by (rule mod_mod_cancel) simp
  have b: "T mod 3600 mod 60 = T mod 60"
    by (rule mod_mod_cancel) simp
  have c: "T mod 86400 div 3600 * 3600 + T mod 3600 = T mod 86400"
    using div_mult_mod_eq [of "T mod 86400" 3600] a by simp
  have d: "T mod 3600 div 60 * 60 + T mod 60 = T mod 3600"
    using div_mult_mod_eq [of "T mod 3600" 60] b by simp
  have e: "T div 86400 * 86400 + T mod 86400 = T"
    by (rule div_mult_mod_eq)
  from c d e show ?thesis by linarith
qed

lemma calc_live:
  "now < targetDate t \<Longrightarrow>
   calculateTimeRemaining t now =
     \<lparr>days = (targetDate t - now) div 1000 div 86400,
      hours = (targetDate t - now) div 1000 mod 86400 div 3600,
      minutes = (targetDate t - now) div 1000 mod 3600 div 60,
      seconds = (targetDate t - now) div 1000 mod 60, isExpired = False\<rparr>"
  by (simp add: calculateTimeRemaining_def Let_def)

lemma calc_expired:
  "targetDate t \<le> now \<Longrightarrow>
   calculateTimeRemaining t now =
     \<lparr>days = 0, hours = 0, minutes = 0, seconds = 0, isExpired = True\<rparr>"
  by (simp add: calculateTimeRemaining_def Let_def)

lemma totalOf_live:
  assumes "now < targetDate t"
  shows "totalOf (calculateTimeRemaining t now) = (targetDate t - now) div 1000"
proof -
  have "totalOf (calculateTimeRemaining t now) =
          (targetDate t - now) div 1000 div 86400 * 86400
          + (targetDate t - now) div 1000 mod 86400 div 3600 * 3600
          + (targetDate t - now) div 1000 mod 3600 div 60 * 60
          + (targetDate t - now) div 1000 mod 60"
    by (simp add: calc_live [OF assms] totalOf_def)
  also have "\<dots> = (targetDate t - now) div 1000"
    by (rule decompose_seconds)
  finally show ?thesis .
qed

lemma isExpired_iff: "isExpired (calculateTimeRemaining t now) = (targetDate t \<le> now)"
  by (simp add: calculateTimeRemaining_def Let_def)

lemma targetDate_constructor: "targetDate (fst (constructor target w)) = target"
  by (simp add: constructor_def Let_def)

text \<open>
  C1. Whenever \<open>now < target\<close>, the computed state is not expired, and its four fields
  add up, in seconds, to the whole seconds left:
  \<open>days * 86400 + hours * 3600 + minutes * 60 + seconds = floor ((target - now) / 1000)\<close>.
\<close>

theorem remaining_reconstructs_seconds:
  assumes "now < targetDate t"
  shows "isExpired (calculateTimeRemaining t now) = False
       \<and> days (calculateTimeRemaining t now) * 86400
           + hours (calculateTimeRemaining t now) * 3600
           + minutes (calculateTimeRemaining t now) * 60
           + seconds (calculateTimeRemaining t now)
         = (targetDate t - now) div 1000"
proof -
  have "isExpired (calculateTimeRemaining t now) = False"
    by (simp add: calc_live [OF assms])
  moreover have "totalOf (calculateTimeRemaining t now) = (targetDate t - now) div 1000"
    using assms by (rule totalOf_live)
  ultimately show ?thesis
    by (simp only: totalOf_def)
qed

theorem remaining_reconstructs_seconds_witness:
  "(0::int) < targetDate scenario_timer
   \<and> isExpired (calculateTimeRemaining scenario_timer 0) = False
   \<and> days (calculateTimeRemaining scenario_timer 0) * 86400
       + hours (calculateTimeRemaining scenario_timer 0) * 3600
       + minutes (calculateTimeRemaining scenario_timer 0) * 60
       + seconds (calculateTimeRemaining scenario_timer 0) = 90061"
proof -
  have h: "(0::int) < targetDate scenario_timer"
    by (simp add: scenario_timer_def targetDate_constructor)
  have e: "(targetDate scenario_timer - 0) div 1000 = 90061"
    by (simp add: scenario_timer_def targetDate_constructor)
  note r = remaining_reconstructs_seconds [OF h, unfolded e]
  from r h show ?thesis by blast
qed

text \<open>
  C2. Whenever \<open>now \<ge> target\<close>, the computed state is exactly the clamped one: all four
  fields zero and \<open>expired\<close> true. Nothing negative, no time since expiry.
\<close>

theorem remaining_clamped_when_expired:
  assumes "targetDate t \<le> now"
  shows "calculateTimeRemaining t now =
           \<lparr>days = 0, hours = 0, minutes = 0, seconds = 0, isExpired = True\<rparr>"
  using assms by (simp add: calculateTimeRemaining_def Let_def)

theorem remaining_clamped_when_expired_witness:
  "targetDate expiring_timer \<le> 6000
   \<and> calculateTimeRemaining expiring_timer 6000 =
       \<lparr>days = 0, hours = 0, minutes = 0, seconds = 0, isExpired = True\<rparr>"
proof -
  have h: "targetDate expiring_timer \<le> 6000"
    by (simp add: expiring_timer_def targetDate_constructor)
  from remaining_clamped_when_expired [OF h] h show ?thesis by simp
qed

text \<open>
  C3, as stated, fails: with 500 ms left the state is not expired, yet its four fields are
  all zero, so the duration they represent is not strictly positive.
\<close>

theorem final_second_not_positive:
  "\<not> isExpired (calculateTimeRemaining final_second_timer 0)
   \<and> \<not> 0 < totalOf (calculateTimeRemaining final_second_timer 0)"
  by (simp add: final_second_timer_def constructor_def calculateTimeRemaining_def Let_def
      totalOf_def)

text \<open>
  C3, amended. When \<open>expired\<close> is false the four fields represent a non-negative duration,
  the whole seconds of a strictly positive remaining time; it is strictly positive exactly
  when at least 1000 ms remain. When \<open>expired\<close> is true all four fields are zero.
\<close>

theorem state_invariant:
  "(\<not> isExpired (calculateTimeRemaining t now) \<longrightarrow>
      0 \<le> totalOf (calculateTimeRemaining t now)
      \<and> 0 < targetDate t - now
      \<and> totalOf (calculateTimeRemaining t now) = (targetDate t - now) div 1000
      \<and> (0 < totalOf (calculateTimeRemaining t now)) = (1000 \<le> targetDate t - now))
   \<and> (isExpired (calculateTimeRemaining t now) \<longrightarrow>
      days (calculateTimeRemaining t now) = 0 \<and> hours (calculateTimeRemaining t now) = 0
      \<and> minutes (calculateTimeRemaining t now) = 0 \<and> seconds (calculateTimeRemaining t now) = 0)"
proof (cases "targetDate t \<le> now")
  case True
  then show ?thesis by (simp add: calc_expired)
next
  case False
  then have live: "now < targetDate t" by simp
  have total: "totalOf (calculateTimeRemaining t now) = (targetDate t - now) div 1000"
    using live by (rule totalOf_live)
  have nonneg: "0 \<le> (targetDate t - now) div 1000"
    using live by simp
  have pos: "(0 < (targetDate t - now) div 1000) = (1000 \<le> targetDate t - now)"
    using live by (simp add: pos_imp_zdiv_pos_iff)
  from live total nonneg pos show ?thesis
    by (simp add: isExpired_iff)
qed

theorem state_invariant_witness:
  "\<not> isExpired (calculateTimeRemaining final_second_timer 0)
   \<and> totalOf (calculateTimeRemaining final_second_timer 0) = 0
   \<and> isExpired (calculateTimeRemaining final_second_timer 500)
   \<and> seconds (calculateTimeRemaining final_second_timer 500) = 0"
proof -
  have live: "\<not> isExpired (calculateTimeRemaining final_second_timer 0)"
    by (simp add: isExpired_iff final_second_timer_def targetDate_constructor)
  have gone: "isExpired (calculateTimeRemaining final_second_timer 500)"
    by (simp add: isExpired_iff final_second_timer_def targetDate_constructor)
  from state_invariant [of final_second_timer 0] live
  have a: "totalOf (calculateTimeRemaining final_second_timer 0) = 0"
    by (simp add: final_second_timer_def targetDate_constructor)
  from state_invariant [of final_second_timer 500] gone
  have b: "seconds (calculateTimeRemaining final_second_timer 500) = 0"
    by blast
  from live a gone b show ?thesis by blast
qed

text \<open>
  C6. In every state that is not expired, \<open>hours\<close> lies in \<open>[0, 23]\<close> and \<open>minutes\<close>
  and \<open>seconds\<close> lie in \<open>[0, 59]\<close>.
\<close>

theorem field_ranges:
  assumes "\<not> isExpired (calculateTimeRemaining t now)"
  shows "0 \<le> hours (calculateTimeRemaining t now) \<and> hours (calculateTimeRemaining t now) \<le> 23
       \<and> 0 \<le> minutes (calculateTimeRemaining t now) \<and> minutes (calculateTimeRemaining t now) \<le> 59
       \<and> 0 \<le> seconds (calculateTimeRemaining t now) \<and> seconds (calculateTimeRemaining t now) \<le> 59"
proof -
  let ?T = "(targetDate t - now) div 1000"
  from assms have live: "now < targetDate t"
    by (simp add: isExpired_iff)
  have hr: "0 \<le> ?T mod 86400 div 3600 \<and> ?T mod 86400 div 3600 \<le> 23"
  proof -
    have "0 \<le> ?T mod 86400" and "?T mod 86400 < 86400" by simp_all
    then show ?thesis by (simp add: pos_imp_zdiv_nonneg_iff)
  qed
  have mn: "0 \<le> ?T mod 3600 div 60 \<and> ?T mod 3600 div 60 \<le> 59"
  proof -
    have "0 \<le> ?T mod 3600" and "?T mod 3600 < 3600" by simp_all
    then show ?thesis by (simp add: pos_imp_zdiv_nonneg_iff)
  qed
  have sc: "0 \<le> ?T mod 60 \<and> ?T mod 60 \<le> 59"
  proof -
    have "0 \<le> ?T mod 60" and "?T mod 60 < 60" by simp_all
    then show ?thesis by linarith
  qed
  from hr mn sc show ?thesis
    by (simp add: calc_live [OF live])
qed

theorem field_ranges_witness:
  "\<not> isExpired (calculateTimeRemaining scenario_timer 0)
   \<and> hours (calculateTimeRemaining scenario_timer 0) \<le> 23
   \<and> minutes (calculateTimeRemaining scenario_timer 0) \<le> 59
   \<and> seconds (calculateTimeRemaining scenario_timer 0) \<le> 59"
proof -
  have h: "\<not> isExpired (calculateTimeRemaining scenario_timer 0)"
    by (simp add: isExpired_iff scenario_timer_def targetDate_constructor)
  from field_ranges [OF h] h show ?thesis by blast
qed

section \<open>The number formatter\<close>

lemma digit_cases: "d < 10 \<Longrightarrow> d \<in> {0, 1, 2, 3, 4, 5, 6, 7, 8, 9::nat}"
  by auto

lemma digit_value_digit_char: "d < 10 \<Longrightarrow> digit_value (digit_char d) = d"
  using digit_cases [of d] by (auto simp: digit_value_def digit_char_def)

lemma is_digit_digit_char: "d < 10 \<Longrightarrow> is_digit (digit_char d)"
  using digit_cases [of d] by (auto simp: is_digit_def digit_char_def)

lemma decimal_value_snoc: "decimal_value (s @ [c]) = 10 * decimal_value s + digit_value c"
  by (simp add: decimal_value_def)

lemma decimal_value_String_nat: "decimal_value (String_nat n) = n"
proof (induction n rule: String_nat.induct)
  case (1 n)
  show ?case
  proof (cases "n < 10")
    case True
    then show ?thesis
      by (simp add: String_nat.simps [of n] decimal_value_def digit_value_digit_char)
  next
    case False
    with 1 show ?thesis
      by (simp add: String_nat.simps [of n] decimal_value_snoc digit_value_digit_char)
  qed
qed

lemma digits_String_nat: "list_all is_digit (String_nat n)"
proof (induction n rule: String_nat.induct)
  case (1 n)
  show ?case
  proof (cases "n < 10")
    case True
    then show ?thesis
      by (simp add: String_nat.simps [of n] is_digit_digit_char)
  next
    case False
    with 1 show ?thesis
      by (simp add: String_nat.simps [of n] is_digit_digit_char)
  qed
qed

lemma length_String_nat_pos: "Suc 0 \<le> length (String_nat n)"
  by (subst String_nat.simps) simp

lemma length_String_nat_small: "n < 10 \<Longrightarrow> length (String_nat n) = 1"
  by (subst String_nat.simps) simp

lemma length_String_nat_large: "\<not> n < 10 \<Longrightarrow> 2 \<le> length (String_nat n)"
  using length_String_nat_pos [of "n div 10"]
  by (subst String_nat.simps) simp

lemma formatNumber_nonneg:
  "0 \<le> num \<Longrightarrow>
   formatNumber num = (if num < 10 then CHR ''0'' # String_num num else String_num num)"
  using length_String_nat_small [of "nat num"] length_String_nat_large [of "nat num"]
  by (auto simp: formatNumber_def padStart_def String_num_def Let_def)

lemma decimal_value_zero_cons: "decimal_value (CHR ''0'' # s) = decimal_value s"
  by (simp add: decimal_value_def digit_value_def)

text \<open>
  C7. A non-negative integer is rendered as its decimal digits, with one \<open>0\<close> in front
  when there is a single digit and nothing cut off when there are more than two: the
  result has at least two characters, all of them digits, and reads back as the number.
  So 5 gives \<open>05\<close> and 123 gives \<open>123\<close>.
\<close>

theorem formatNumber_pads_to_two:
  assumes "0 \<le> num"
  shows "formatNumber num = (if num < 10 then CHR ''0'' # String_num num else String_num num)
       \<and> 2 \<le> length (formatNumber num)
       \<and> list_all is_digit (formatNumber num)
       \<and> int (decimal_value (formatNumber num)) = num
       \<and> formatNumber 5 = ''05'' \<and> formatNumber 123 = ''123''"
proof -
  have shape: "formatNumber num = (if num < 10 then CHR ''0'' # String_num num else String_num num)"
    using assms by (rule formatNumber_nonneg)
  have str: "String_num num = String_nat (nat num)"
    using assms by (simp add: String_num_def)
  have len: "2 \<le> length (formatNumber num)"
    using length_String_nat_small [of "nat num"] length_String_nat_large [of "nat num"]
    by (simp add: shape str)
  have dig: "list_all is_digit (formatNumber num)"
    using digits_String_nat [of "nat num"] by (simp add: shape str is_digit_def)
  have val: "int (decimal_value (formatNumber num)) = num"
    using assms by (simp add: shape str decimal_value_zero_cons decimal_value_String_nat)
  have five: "formatNumber 5 = ''05''"
    by (simp add: formatNumber_def padStart_def String_num_def String_nat.simps digit_char_def)
  have big: "formatNumber 123 = ''123''"
    by (simp add: formatNumber_def padStart_def String_num_def String_nat.simps digit_char_def)
  from shape len dig val five big show ?thesis by blast
qed

theorem formatNumber_pads_to_two_witness:
  "(0::int) \<le> 7 \<and> formatNumber 7 = ''07'' \<and> int (decimal_value (formatNumber 7)) = 7"
proof -
  have h: "(0::int) \<le> 7" by simp
  have s: "String_num 7 = ''7''"
    by (simp add: String_num_def String_nat.simps digit_char_def)
  from formatNumber_pads_to_two [OF h] have a: "formatNumber 7 = ''07''"
    by (simp add: s)
  from formatNumber_pads_to_two [OF h] have b: "int (decimal_value (formatNumber 7)) = 7"
    by blast
  from h a b show ?thesis by blast
qed

lemma formatNumber_zero: "formatNumber 0 = ''00''"
  by (simp add: formatNumber_def padStart_def String_num_def String_nat.simps digit_char_def)

section \<open>The presenter\<close>

subsection \<open>What stop and the expiry handling change\<close>

lemma stop_falsy: "\<not> truthy (timerInterval t) \<Longrightarrow> stop t w = (t, w)"
  by (auto simp: stop_def truthy_def split: option.splits)

lemma stop_result_falsy: "\<not> truthy (timerInterval (fst (stop t w)))"
  by (auto simp: stop_def truthy_def split: option.splits)

lemma stop_effects_falsy: "\<not> truthy (timerInterval t) \<Longrightarrow> stop_effects t = []"
  by (auto simp: stop_effects_def truthy_def split: option.splits)

lemma stop_slots [simp]:
  "daysElement (fst (stop t w)) = daysElement t"
  "hoursElement (fst (stop t w)) = hoursElement t"
  "minutesElement (fst (stop t w)) = minutesElement t"
  "secondsElement (fst (stop t w)) = secondsElement t"
  "targetDate (fst (stop t w)) = targetDate t"
  by (auto simp: stop_def split: option.splits)

lemma stop_page [simp]:
  "heap (snd (stop t w)) = heap w"
  "byId (snd (stop t w)) = byId w"
  "comingSoonH2 (snd (stop t w)) = comingSoonH2 w"
  by (auto simp: stop_def emit_def split: option.splits)

lemma effects_stop: "effects (snd (stop t w)) = effects w @ stop_effects t"
  by (auto simp: stop_def stop_effects_def emit_def split: option.splits)

lemma handleExpiredEvent_timer: "fst (handleExpiredEvent t w) = fst (stop t w)"
  by (simp add: handleExpiredEvent_def Let_def split_beta emit_def stop_def split: option.splits)

lemma handleExpiredEvent_page [simp]:
  "byId (snd (handleExpiredEvent t w)) = byId w"
  "comingSoonH2 (snd (handleExpiredEvent t w)) = comingSoonH2 w"
  by (auto simp: handleExpiredEvent_def Let_def split_beta write_text_def disable_notify_def
      emit_def split: option.splits)

lemma active_handleExpiredEvent: "active (snd (handleExpiredEvent t w)) = active (snd (stop t w))"
  by (auto simp: handleExpiredEvent_def Let_def split_beta write_text_def disable_notify_def
      emit_def stop_def split: option.splits)

lemma effects_handleExpiredEvent:
  "effects (snd (handleExpiredEvent t w)) =
     effects w @ ConsoleLog ''Event date reached!'' # stop_effects t @ status_effects w @ notify_effects w"
  by (auto simp: handleExpiredEvent_def Let_def split_beta effects_stop status_effects_def
      notify_effects_def write_text_def disable_notify_def emit_def split: option.splits)

lemma heap_handleExpiredEvent_at:
  "heap (snd (handleExpiredEvent t w)) r =
     (if byId w ''notify-btn'' = Some r
      then (heap w r)\<lparr>disabled := True, textContent := ''Event Live'',
                       style_opacity := ''0.6'', style_cursor := ''not-allowed''\<rparr>
      else if comingSoonH2 w = Some r then (heap w r)\<lparr>textContent := ''Event Started!''\<rparr>
      else heap w r)"
  by (auto simp: handleExpiredEvent_def Let_def split_beta write_text_def disable_notify_def
      emit_def split: option.splits)

lemma effects_zeros_written:
  "effects (zeros_written d h m s w) =
     effects w @ [SetTextContent d ''00'', SetTextContent h ''00'',
                  SetTextContent m ''00'', SetTextContent s ''00'']"
  by (simp add: zeros_written_def write_text_def emit_def)

lemma page_zeros_written [simp]:
  "byId (zeros_written d h m s w) = byId w"
  "comingSoonH2 (zeros_written d h m s w) = comingSoonH2 w"
  "active (zeros_written d h m s w) = active w"
  by (simp_all add: zeros_written_def write_text_def emit_def)

lemma heap_zeros_written_at:
  "heap (zeros_written d h m s w) r =
     (if r \<in> {d, h, m, s} then (heap w r)\<lparr>textContent := ''00''\<rparr> else heap w r)"
  by (auto simp: zeros_written_def write_text_def emit_def)

text \<open>Running the expired tick a second time leaves every element as the first run left it.\<close>

lemma repeat_heap:
  "heap (snd (handleExpiredEvent t' (zeros_written d h m s
            (snd (handleExpiredEvent t (zeros_written d h m s w)))))) =
   heap (snd (handleExpiredEvent t (zeros_written d h m s w)))"
  by (rule ext) (simp add: heap_handleExpiredEvent_at heap_zeros_written_at)

lemma updateDisplay_expired:
  assumes "targetDate t \<le> now"
    and "daysElement t = Some d" and "hoursElement t = Some h"
    and "minutesElement t = Some m" and "secondsElement t = Some s"
  shows "updateDisplay now t w =
           returning (handleExpiredEvent t (zeros_written d h m s w))"
  using assms
  by (simp add: updateDisplay_def calc_expired formatNumber_zero set_textContent_def
      zeros_written_def returning_def split_beta)

lemma expiring_timer_eq:
  "expiring_timer = \<lparr>targetDate = 5000, timerInterval = None, daysElement = Some 1,
     hoursElement = Some 2, minutesElement = Some 3, secondsElement = Some 4\<rparr>"
  by (simp add: expiring_timer_def constructor_def Let_def full_page_def page_of_def)


lemma active_stop: "active (snd (stop t w)) = active w - held t"
  by (auto simp: stop_def held_def emit_def split: option.splits)

lemma held_stop: "held (fst (stop t w)) = {}"
  by (auto simp: stop_def held_def split: option.splits)

subsection \<open>stop\<close>

text \<open>
  C8. \<open>stop\<close> is idempotent: a second \<open>stop\<close> changes nothing the first one left. After
  \<open>stop\<close> the handle field is cleared, the handle it held is no longer among the active
  timers (and no other timer was touched), and the session no longer samples through it.
  On a session that was never started \<open>stop\<close> does nothing at all.
\<close>

theorem stop_idempotent:
  "stop (fst (stop t w)) (snd (stop t w)) = stop t w
   \<and> \<not> truthy (timerInterval (fst (stop t w)))
   \<and> \<not> sampling (fst (stop t w)) (snd (stop t w))
   \<and> stop (fst (constructor target w0)) (snd (constructor target w0)) = constructor target w0
   \<and> active (snd (stop t w)) = active w - held t
   \<and> (timerInterval t = Some k \<and> k \<noteq> 0 \<longrightarrow>
        k \<notin> active (snd (stop t w))
        \<and> ClearInterval k \<in> set (effects (snd (stop t w))))
   \<and> held (fst (stop t w)) = {}"
proof -
  have a: "stop (fst (stop t w)) (snd (stop t w)) = stop t w"
    using stop_falsy [OF stop_result_falsy, of t w "snd (stop t w)"] by simp
  have b: "\<not> sampling (fst (stop t w)) (snd (stop t w))"
    using stop_result_falsy [of t w]
    by (auto simp: sampling_def truthy_def split: option.splits)
  have c: "stop (fst (constructor target w0)) (snd (constructor target w0)) = constructor target w0"
    by (simp add: stop_falsy truthy_def constructor_def Let_def)
  have d: "active (snd (stop t w)) = active w - held t"
    by (rule active_stop)
  have e: "k \<notin> active (snd (stop t w)) \<and> ClearInterval k \<in> set (effects (snd (stop t w)))"
    if "timerInterval t = Some k" and "k \<noteq> 0"
    using that by (simp add: stop_def emit_def)
  have f: "held (fst (stop t w)) = {}"
    by (rule held_stop)
  from a b c d e f stop_result_falsy [of t w] show ?thesis by blast
qed

theorem stop_idempotent_witness:
  "timerInterval (outcome_timer (start 0 expiring_timer full_page)) = Some 1
   \<and> active (outcome_world (start 0 expiring_timer full_page)) = {1}
   \<and> sampling (outcome_timer (start 0 expiring_timer full_page))
              (outcome_world (start 0 expiring_timer full_page))
   \<and> 1 \<notin> active (snd (stop (outcome_timer (start 0 expiring_timer full_page))
                              (outcome_world (start 0 expiring_timer full_page))))
   \<and> active (snd (stop (outcome_timer (start 0 expiring_timer full_page))
                        (outcome_world (start 0 expiring_timer full_page)))) = {}
   \<and> \<not> sampling (fst (stop (outcome_timer (start 0 expiring_timer full_page))
                            (outcome_world (start 0 expiring_timer full_page))))
                  (snd (stop (outcome_timer (start 0 expiring_timer full_page))
                            (outcome_world (start 0 expiring_timer full_page))))"
proof -
  let ?t = "outcome_timer (start 0 expiring_timer full_page)"
  let ?w = "outcome_world (start 0 expiring_timer full_page)"
  have run: "timerInterval ?t = Some 1 \<and> active ?w = {1}"
    by (simp add: start_def updateDisplay_def calculateTimeRemaining_def set_textContent_def
        write_text_def emit_def Let_def expiring_timer_eq full_page_def page_of_def
        outcome_timer_def outcome_world_def)
  then have field: "timerInterval ?t = Some 1 \<and> (1::nat) \<noteq> 0" and act: "active ?w = {1}"
    by simp_all
  have running: "sampling ?t ?w"
    using run by (simp add: sampling_def)
  have hd: "held ?t = {1}"
    using run by (simp add: held_def)
  note inst = stop_idempotent [where t = ?t and w = ?w and k = 1]
  from inst field have gone: "1 \<notin> active (snd (stop ?t ?w))"
    by blast
  from inst have "active (snd (stop ?t ?w)) = active ?w - held ?t"
    by blast
  then have none: "active (snd (stop ?t ?w)) = {}"
    by (simp only: act hd Diff_cancel)
  from inst have quiet: "\<not> sampling (fst (stop ?t ?w)) (snd (stop ?t ?w))"
    by blast
  from run running gone none quiet show ?thesis by blast
qed

subsection \<open>The tick that samples an expired state\<close>



subsection \<open>A missing slot\<close>

lemma start_throws_when_slot_missing:
  assumes "None \<in> set (slots t)"
  shows "has_thrown (start now t w)
       \<and> active (outcome_world (start now t w)) = active w
       \<and> timerInterval (outcome_timer (start now t w)) = timerInterval t"
  using assms
  by (auto simp: start_def updateDisplay_def set_textContent_def slots_def has_thrown_def
      outcome_world_def outcome_timer_def write_text_def emit_def Let_def
      split: option.splits)

text \<open>
  C4. On the page without the \<open>days\<close> slot the constructor reports the diagnostic, but
  \<open>start\<close> then throws a \<open>TypeError\<close> from its first update instead of settling into a
  mode that does nothing: no timer is set, and \<open>initializeApp\<close> is left by the exception
  before the buttons are initialised.
\<close>

theorem start_with_missing_slot_throws:
  "effects (snd (constructor 5000 page_without_days)) =
     [ConsoleError ''ERROR: One or more countdown timer elements not found in DOM'']
   \<and> start 0 (fst (constructor 5000 page_without_days)) (snd (constructor 5000 page_without_days))
       = Threw TypeError (fst (constructor 5000 page_without_days))
                         (snd (constructor 5000 page_without_days))
   \<and> has_thrown (initializeApp 5000 0 page_without_days)
   \<and> effects (outcome_world (initializeApp 5000 0 page_without_days)) =
       [ConsoleLog ''Initializing INNOVISION 2K26 Coming Soon Page'',
        ConsoleError ''ERROR: One or more countdown timer elements not found in DOM'']
   \<and> active (outcome_world (initializeApp 5000 0 page_without_days)) = {}"
  by (simp add: initializeApp_def constructor_def validateElements_def start_def
      updateDisplay_def set_textContent_def emit_def Let_def page_without_days_def page_of_def
      has_thrown_def outcome_world_def)

subsection \<open>start called twice\<close>

text \<open>
  C9. Two calls of \<open>start\<close> acquire the handles 1 and 2; the second overwrites the field,
  so \<open>stop\<close> releases handle 2 only. Handle 1 stays active after \<open>stop\<close> has returned,
  and its tick still runs \<open>updateDisplay\<close> and writes the four slots.
\<close>

theorem stop_after_double_start_leaks_timer:
  "\<not> has_thrown double_start_then_stop
   \<and> timerInterval (outcome_timer double_start_then_stop) = None
   \<and> active (outcome_world double_start_then_stop) = {1}
   \<and> \<not> sampling (outcome_timer double_start_then_stop) (outcome_world double_start_then_stop)
   \<and> effects (outcome_world (then_do double_start_then_stop (fire 1 1000))) =
       effects (outcome_world double_start_then_stop)
       @ [SetTextContent 1 ''00'', SetTextContent 2 ''00'',
          SetTextContent 3 ''00'', SetTextContent 4 ''04'']"
  by (simp add: double_start_then_stop_def then_do_def returning_def start_def stop_def fire_def
      updateDisplay_def calculateTimeRemaining_def set_textContent_def write_text_def emit_def
      formatNumber_def padStart_def String_num_def String_nat.simps digit_char_def
      Let_def expiring_timer_eq full_page_def page_of_def has_thrown_def outcome_timer_def
      outcome_world_def sampling_def)

subsection \<open>reset\<close>

lemma nextHandle_emit [simp]: "nextHandle (emit e w) = nextHandle w"
  by (simp add: emit_def)

lemma active_emit [simp]: "active (emit e w) = active w"
  by (simp add: emit_def)

lemma write_text_timers [simp]:
  "active (write_text r s w) = active w" "nextHandle (write_text r s w) = nextHandle w"
  by (simp_all add: write_text_def)

lemma stop_timers:
  "active (snd (stop t w)) \<subseteq> active w" "nextHandle (snd (stop t w)) = nextHandle w"
  by (auto simp: stop_def split: option.splits)

lemma disable_notify_timers [simp]:
  "active (disable_notify b w) = active w" "nextHandle (disable_notify b w) = nextHandle w"
  by (simp_all add: disable_notify_def Let_def)

lemma handleExpiredEvent_timers:
  "active (snd (handleExpiredEvent t w)) \<subseteq> active w"
  "nextHandle (snd (handleExpiredEvent t w)) = nextHandle w"
  using stop_timers [of t "emit (ConsoleLog ''Event date reached!'') w"]
  by (auto simp: handleExpiredEvent_def Let_def split_beta split: option.splits)

lemma updateDisplay_timers:
  "active (outcome_world (updateDisplay now t w)) \<subseteq> active w
   \<and> nextHandle (outcome_world (updateDisplay now t w)) = nextHandle w"
proof (cases "None \<in> set (slots t)")
  case True
  then show ?thesis
    by (auto simp: updateDisplay_def set_textContent_def slots_def outcome_world_def Let_def
        split: option.splits)
next
  case False
  from False have "\<exists>d. daysElement t = Some d"
    by (cases "daysElement t") (simp_all add: slots_def)
  moreover from False have "\<exists>h. hoursElement t = Some h"
    by (cases "hoursElement t") (simp_all add: slots_def)
  moreover from False have "\<exists>m. minutesElement t = Some m"
    by (cases "minutesElement t") (simp_all add: slots_def)
  moreover from False have "\<exists>s. secondsElement t = Some s"
    by (cases "secondsElement t") (simp_all add: slots_def)
  ultimately obtain d h m s where sl: "daysElement t = Some d" "hoursElement t = Some h"
    "minutesElement t = Some m" "secondsElement t = Some s"
    by blast
  let ?c = "calculateTimeRemaining t now"
  let ?w4 = "write_text s (formatNumber (seconds ?c)) (write_text m (formatNumber (minutes ?c))
               (write_text h (formatNumber (hours ?c)) (write_text d (formatNumber (days ?c)) w)))"
  have w4: "active ?w4 = active w" "nextHandle ?w4 = nextHandle w" by simp_all
  have run: "updateDisplay now t w =
      (if isExpired ?c then returning (handleExpiredEvent t ?w4) else Returned t ?w4)"
    by (simp add: updateDisplay_def set_textContent_def sl Let_def split_beta returning_def)
  show ?thesis
    using handleExpiredEvent_timers [of t ?w4] w4
    by (simp add: run returning_def outcome_world_def)
qed

text \<open>
  \<open>reset\<close>, by contrast, calls \<open>stop\<close> before \<open>start\<close>: the handle the session held
  is released before the next one is acquired.
\<close>

lemma reset_releases_held_handle:
  assumes "timerInterval t = Some k" and "k \<noteq> 0" and "k \<noteq> nextHandle w"
  shows "k \<notin> active (outcome_world (reset now t w))"
proof -
  let ?t1 = "t\<lparr>timerInterval := None\<rparr>"
  let ?w1 = "emit (ConsoleLog ''Countdown timer stopped'')
               (emit (ClearInterval k) (w\<lparr>active := active w - {k}\<rparr>))"
  have st: "stop t w = (?t1, ?w1)"
    using assms by (simp add: stop_def)
  have gone: "k \<notin> active ?w1" by simp
  have nh: "nextHandle ?w1 = nextHandle w" by simp
  from updateDisplay_timers [of now ?t1 ?w1] gone nh
  have sub: "k \<notin> active (outcome_world (updateDisplay now ?t1 ?w1))"
    and nh2: "nextHandle (outcome_world (updateDisplay now ?t1 ?w1)) = nextHandle w"
    by auto
  show ?thesis
  proof (cases "updateDisplay now ?t1 ?w1")
    case (Returned t2 w2)
    with sub nh2 assms(3) show ?thesis
      by (simp add: reset_def st start_def Let_def outcome_world_def)
  next
    case (Threw e t2 w2)
    with sub show ?thesis
      by (simp add: reset_def st start_def outcome_world_def)
  qed
qed

subsection \<open>Ticks after expiry\<close>

text \<open>
  C5, as stated, fails: \<open>updateDisplay\<close> has no memory of an earlier expiry. On the full
  page with the target at 5000, the tick at 5000 is the expired one and makes four writes
  to the numeric slots; a tick injected at 6000 makes four more.
\<close>

theorem tick_after_expiry_writes_again:
  "length (slot_writes expiring_timer
      (effects (outcome_world (updateDisplay 5000 expiring_timer full_page)))) = 4
   \<and> length (slot_writes expiring_timer
      (effects (outcome_world
         (then_do (updateDisplay 5000 expiring_timer full_page) (updateDisplay 6000))))) = 8"
  by (simp add: updateDisplay_def calculateTimeRemaining_def formatNumber_zero set_textContent_def
        write_text_def emit_def handleExpiredEvent_def stop_def disable_notify_def Let_def
        expiring_timer_eq full_page_def page_of_def then_do_def outcome_world_def slots_def)

subsection \<open>Sessions that have reached the expired state\<close>

lemma expiry_heap_cong:
  assumes "heap w' = heap w" and "byId w' = byId w" and "comingSoonH2 w' = comingSoonH2 w"
  shows "heap (snd (handleExpiredEvent t' (zeros_written d h m s w'))) =
         heap (snd (handleExpiredEvent t (zeros_written d h m s w)))"
  by (rule ext) (simp add: heap_handleExpiredEvent_at heap_zeros_written_at assms)

lemma settledE:
  assumes "settled t w"
  obtains d h m s where "daysElement t = Some d" and "hoursElement t = Some h"
    and "minutesElement t = Some m" and "secondsElement t = Some s"
    and "heap (snd (handleExpiredEvent t (zeros_written d h m s w))) = heap w"
  using assms by (auto simp: settled_def split: option.splits)

lemma settledI:
  assumes "daysElement t = Some d" and "hoursElement t = Some h"
    and "minutesElement t = Some m" and "secondsElement t = Some s"
    and "heap (snd (handleExpiredEvent t (zeros_written d h m s w))) = heap w"
  shows "settled t w"
  using assms by (simp add: settled_def)

lemma kept_refl: "kept t w t w"
  by (simp add: kept_def)

lemma kept_trans: "kept t w t' w' \<Longrightarrow> kept t' w' t'' w'' \<Longrightarrow> kept t w t'' w''"
  by (simp add: kept_def)

lemma kept_stop: "kept t w (fst (stop t w)) (snd (stop t w))"
  by (simp add: kept_def slots_def)

lemma kept_settled:
  assumes "settled t w" and "kept t w t' w'"
  shows "settled t' w'"
proof -
  from assms(1) obtain d h m s where sl: "daysElement t = Some d" "hoursElement t = Some h"
    "minutesElement t = Some m" "secondsElement t = Some s"
    and fx: "heap (snd (handleExpiredEvent t (zeros_written d h m s w))) = heap w"
    by (rule settledE)
  from assms(2) have pg: "heap w' = heap w" "byId w' = byId w" "comingSoonH2 w' = comingSoonH2 w"
    and sl': "daysElement t' = Some d" "hoursElement t' = Some h"
    "minutesElement t' = Some m" "secondsElement t' = Some s"
    using sl by (simp_all add: kept_def slots_def)
  have "heap (snd (handleExpiredEvent t' (zeros_written d h m s w'))) =
        heap (snd (handleExpiredEvent t (zeros_written d h m s w)))"
    using pg by (rule expiry_heap_cong)
  then have "heap (snd (handleExpiredEvent t' (zeros_written d h m s w'))) = heap w'"
    by (simp only: fx pg)
  with sl' show ?thesis by (rule settledI)
qed

text \<open>An update of a settled session at an instant not before the target.\<close>

lemma updateDisplay_settled:
  assumes "settled t w" and "targetDate t \<le> n"
  shows "\<not> has_thrown (updateDisplay n t w)
       \<and> kept t w (outcome_timer (updateDisplay n t w)) (outcome_world (updateDisplay n t w))
       \<and> active (outcome_world (updateDisplay n t w)) = active w - held t
       \<and> nextHandle (outcome_world (updateDisplay n t w)) = nextHandle w
       \<and> \<not> truthy (timerInterval (outcome_timer (updateDisplay n t w)))"
proof -
  from assms(1) obtain d h m s where sl: "daysElement t = Some d" "hoursElement t = Some h"
    "minutesElement t = Some m" "secondsElement t = Some s"
    and fx: "heap (snd (handleExpiredEvent t (zeros_written d h m s w))) = heap w"
    by (rule settledE)
  let ?z = "zeros_written d h m s w"
  have run: "updateDisplay n t w = returning (handleExpiredEvent t ?z)"
    using assms(2) sl by (rule updateDisplay_expired)
  have tm: "outcome_timer (updateDisplay n t w) = fst (stop t ?z)"
    and wd: "outcome_world (updateDisplay n t w) = snd (handleExpiredEvent t ?z)"
    by (simp_all add: run returning_def outcome_timer_def outcome_world_def
        handleExpiredEvent_timer)
  have nothrow: "\<not> has_thrown (updateDisplay n t w)"
    by (simp add: run returning_def has_thrown_def)
  have kp: "kept t w (fst (stop t ?z)) (snd (handleExpiredEvent t ?z))"
    by (simp add: kept_def slots_def fx)
  have act: "active (snd (handleExpiredEvent t ?z)) = active w - held t"
    by (simp add: active_handleExpiredEvent active_stop)
  have nh: "nextHandle (snd (handleExpiredEvent t ?z)) = nextHandle w"
    by (simp add: handleExpiredEvent_timers zeros_written_def)
  have fl: "\<not> truthy (timerInterval (fst (stop t ?z)))"
    by (rule stop_result_falsy)
  from nothrow kp act nh fl show ?thesis
    by (simp only: tm wd) simp
qed

text \<open>The update that reaches the expired state leaves a settled session.\<close>

lemma updateDisplay_reaches_settled:
  assumes "targetDate t \<le> n" and "updateDisplay n t w = Returned t1 w1"
  shows "settled t1 w1 \<and> slots t1 = slots t \<and> targetDate t1 = targetDate t"
proof -
  from assms(2) have "daysElement t \<noteq> None \<and> hoursElement t \<noteq> None
       \<and> minutesElement t \<noteq> None \<and> secondsElement t \<noteq> None"
    by (auto simp: updateDisplay_def set_textContent_def Let_def split: option.splits)
  then obtain d h m s where sl: "daysElement t = Some d" "hoursElement t = Some h"
    "minutesElement t = Some m" "secondsElement t = Some s"
    by blast
  let ?z = "zeros_written d h m s"
  have "Returned t1 w1 = returning (handleExpiredEvent t (?z w))"
    using updateDisplay_expired [OF assms(1) sl, of w] assms(2) by simp
  then have t1: "t1 = fst (stop t (?z w))" and w1: "w1 = snd (handleExpiredEvent t (?z w))"
    by (simp_all add: returning_def handleExpiredEvent_timer)
  have sl1: "daysElement t1 = Some d" "hoursElement t1 = Some h"
    "minutesElement t1 = Some m" "secondsElement t1 = Some s"
    using sl by (simp_all add: t1)
  have "heap (snd (handleExpiredEvent t1 (?z w1))) = heap w1"
    unfolding w1 by (rule repeat_heap)
  with sl1 have "settled t1 w1" by (rule settledI)
  moreover have "slots t1 = slots t" "targetDate t1 = targetDate t"
    by (simp_all add: t1 slots_def)
  ultimately show ?thesis by blast
qed

text \<open>The statements of \<open>start\<close> after its update keep the page and the session's slots.\<close>

lemma start_Returned:
  assumes "start n t w = Returned t2 w2"
  obtains t1 w1 where "updateDisplay n t w = Returned t1 w1" and "kept t1 w1 t2 w2"
proof (cases "updateDisplay n t w")
  case (Returned t1 w1)
  with assms have "kept t1 w1 t2 w2"
    by (auto simp: start_def Let_def kept_def slots_def emit_def)
  with Returned show ?thesis by (rule that)
next
  case (Threw e t1 w1)
  with assms show ?thesis by (simp add: start_def)
qed

lemma start_settled:
  assumes "settled t w" and "targetDate t \<le> n"
  shows "\<not> has_thrown (start n t w)
       \<and> kept t w (outcome_timer (start n t w)) (outcome_world (start n t w))"
proof -
  from updateDisplay_settled [OF assms]
  have nothrow: "\<not> has_thrown (updateDisplay n t w)"
    and kp: "kept t w (outcome_timer (updateDisplay n t w)) (outcome_world (updateDisplay n t w))"
    by blast+
  from nothrow obtain t1 w1 where ret: "updateDisplay n t w = Returned t1 w1"
    by (cases "updateDisplay n t w") (simp_all add: has_thrown_def)
  from kp have kp1: "kept t w t1 w1"
    by (simp add: ret outcome_timer_def outcome_world_def)
  then show ?thesis
    by (simp add: start_def ret Let_def has_thrown_def outcome_timer_def outcome_world_def
        kept_def slots_def emit_def)
qed

lemma run_call_settled:
  assumes "settled t w" and "not_before (targetDate t) c"
  shows "\<not> has_thrown (run_call c t w)
       \<and> kept t w (outcome_timer (run_call c t w)) (outcome_world (run_call c t w))"
proof (cases c)
  case (Start n)
  with assms show ?thesis by (simp add: start_settled)
next
  case Stop
  then show ?thesis
    by (simp add: returning_def has_thrown_def outcome_timer_def outcome_world_def kept_stop)
next
  case (Reset n)
  let ?t = "fst (stop t w)" and ?w = "snd (stop t w)"
  have k0: "kept t w ?t ?w" by (rule kept_stop)
  with assms(1) have s0: "settled ?t ?w" by (rule kept_settled)
  from assms(2) Reset have "targetDate ?t \<le> n" by simp
  with s0 have "\<not> has_thrown (start n ?t ?w)
       \<and> kept ?t ?w (outcome_timer (start n ?t ?w)) (outcome_world (start n ?t ?w))"
    by (rule start_settled)
  with k0 show ?thesis
    by (auto simp: Reset reset_def split_beta intro: kept_trans)
next
  case (Tick h n)
  with assms updateDisplay_settled [of t w n] show ?thesis
    by (simp add: fire_def has_thrown_def outcome_timer_def outcome_world_def kept_refl)
next
  case (Update n)
  with assms updateDisplay_settled [of t w n] show ?thesis by simp
qed

lemma run_calls_settled:
  assumes "settled t w" and "list_all (not_before (targetDate t)) cs"
  shows "\<not> has_thrown (run_calls cs t w)
       \<and> kept t w (outcome_timer (run_calls cs t w)) (outcome_world (run_calls cs t w))"
  using assms
proof (induction cs arbitrary: t w)
  case Nil
  then show ?case
    by (simp add: has_thrown_def outcome_timer_def outcome_world_def kept_refl)
next
  case (Cons c cs)
  from Cons.prems have nb: "not_before (targetDate t) c"
    and rest: "list_all (not_before (targetDate t)) cs"
    by simp_all
  from run_call_settled [OF Cons.prems(1) nb]
  have nothrow: "\<not> has_thrown (run_call c t w)"
    and kp: "kept t w (outcome_timer (run_call c t w)) (outcome_world (run_call c t w))"
    by blast+
  from nothrow obtain t1 w1 where ret: "run_call c t w = Returned t1 w1"
    by (cases "run_call c t w") (simp_all add: has_thrown_def)
  from kp have kp1: "kept t w t1 w1"
    by (simp add: ret outcome_timer_def outcome_world_def)
  with Cons.prems(1) have s1: "settled t1 w1" by (rule kept_settled)
  from kp1 rest have rest1: "list_all (not_before (targetDate t1)) cs"
    by (simp add: kept_def)
  from Cons.IH [OF s1 rest1] kp1 show ?case
    by (auto simp: ret then_do_def intro: kept_trans)
qed

lemma run_call_reaches_settled:
  assumes "samples c w" and "not_before (targetDate t) c" and "run_call c t w = Returned t1 w1"
  shows "settled t1 w1 \<and> slots t1 = slots t \<and> targetDate t1 = targetDate t"
proof (cases c)
  case (Start n)
  with assms have le: "targetDate t \<le> n" and "start n t w = Returned t1 w1" by simp_all
  from this(2) obtain ta wa where up: "updateDisplay n t w = Returned ta wa"
    and kp: "kept ta wa t1 w1"
    by (rule start_Returned)
  from updateDisplay_reaches_settled [OF le up] kp kept_settled [of ta wa t1 w1]
  show ?thesis by (auto simp: kept_def)
next
  case Stop
  with assms show ?thesis by simp
next
  case (Reset n)
  let ?t = "fst (stop t w)" and ?w = "snd (stop t w)"
  from assms Reset have le: "targetDate ?t \<le> n" and "start n ?t ?w = Returned t1 w1"
    by (simp_all add: reset_def split_beta)
  from this(2) obtain ta wa where up: "updateDisplay n ?t ?w = Returned ta wa"
    and kp: "kept ta wa t1 w1"
    by (rule start_Returned)
  from updateDisplay_reaches_settled [OF le up] kp kept_settled [of ta wa t1 w1]
  show ?thesis by (auto simp: kept_def slots_def)
next
  case (Tick h n)
  with assms updateDisplay_reaches_settled [of t n w t1 w1] show ?thesis
    by (simp add: fire_def)
next
  case (Update n)
  with assms updateDisplay_reaches_settled [of t n w t1 w1] show ?thesis by simp
qed

lemma updateDisplay_expired_effects:
  assumes "targetDate t \<le> n"
    and "daysElement t = Some d" and "hoursElement t = Some h"
    and "minutesElement t = Some m" and "secondsElement t = Some s"
  shows "effects (outcome_world (updateDisplay n t w)) =
           effects w
           @ [SetTextContent d ''00'', SetTextContent h ''00'',
              SetTextContent m ''00'', SetTextContent s ''00'']
           @ [ConsoleLog ''Event date reached!'']
           @ stop_effects t @ status_effects w @ notify_effects w"
    and "outcome_timer (updateDisplay n t w) = fst (stop t w)"
proof -
  have run: "updateDisplay n t w = returning (handleExpiredEvent t (zeros_written d h m s w))"
    using assms by (rule updateDisplay_expired)
  show "effects (outcome_world (updateDisplay n t w)) =
           effects w
           @ [SetTextContent d ''00'', SetTextContent h ''00'',
              SetTextContent m ''00'', SetTextContent s ''00'']
           @ [ConsoleLog ''Event date reached!'']
           @ stop_effects t @ status_effects w @ notify_effects w"
    by (simp add: run returning_def outcome_world_def effects_handleExpiredEvent
        effects_zeros_written status_effects_def notify_effects_def)
  show "outcome_timer (updateDisplay n t w) = fst (stop t w)"
    by (simp add: run returning_def outcome_timer_def handleExpiredEvent_timer stop_def
        split: option.splits)
qed

text \<open>
  C5, amended. Once a call of \<open>start\<close>, \<open>reset\<close> or the tick handler has sampled an
  expired state and the expiry handling has run, then through any further calls of
  \<open>start\<close>, \<open>stop\<close>, \<open>reset\<close> and ticks at instants not before the target nothing throws
  and no element of the page changes. A further call of the tick handler after them still
  writes to the four numeric slots, but what it writes is \<open>00\<close> again, and it runs the
  expiry handling again with the same values: every element stays as it was. That tick
  leaves the session without a timer handle: it releases the handle the session holds, if
  any (\<open>start\<close> acquires one even when its own update was the expired one), touches no
  other timer and acquires none; a session that holds no handle is left as it was.
\<close>

theorem tick_after_expiry_rewrites_zeros:
  assumes "samples c0 w" and "not_before (targetDate t) c0"
    and "run_call c0 t w = Returned t1 w1"
    and "daysElement t = Some d" and "hoursElement t = Some h"
    and "minutesElement t = Some m" and "secondsElement t = Some s"
    and "list_all (not_before (targetDate t)) cs"
    and "targetDate t \<le> now1"
  shows "\<not> has_thrown (run_calls cs t1 w1)
       \<and> heap (outcome_world (run_calls cs t1 w1)) = heap w1
       \<and> (let t2 = outcome_timer (run_calls cs t1 w1);
               w2 = outcome_world (run_calls cs t1 w1);
               out = updateDisplay now1 t2 w2
           in \<not> has_thrown out
              \<and> heap (outcome_world out) = heap w1
              \<and> effects (outcome_world out) =
                  effects w2
                  @ [SetTextContent d ''00'', SetTextContent h ''00'',
                     SetTextContent m ''00'', SetTextContent s ''00'']
                  @ [ConsoleLog ''Event date reached!'']
                  @ stop_effects t2 @ status_effects w2 @ notify_effects w2
              \<and> \<not> truthy (timerInterval (outcome_timer out))
              \<and> active (outcome_world out) = active w2 - held t2
              \<and> nextHandle (outcome_world out) = nextHandle w2
              \<and> (\<not> truthy (timerInterval t2) \<longrightarrow>
                    outcome_timer out = t2 \<and> active (outcome_world out) = active w2))"
proof -
  let ?t2 = "outcome_timer (run_calls cs t1 w1)"
  let ?w2 = "outcome_world (run_calls cs t1 w1)"
  let ?out = "updateDisplay now1 ?t2 ?w2"
  from run_call_reaches_settled [OF assms(1-3)]
  have s1: "settled t1 w1" and sl1: "slots t1 = slots t" and td1: "targetDate t1 = targetDate t"
    by blast+
  from assms(8) td1 have "list_all (not_before (targetDate t1)) cs" by simp
  with s1 have nothrow: "\<not> has_thrown (run_calls cs t1 w1)" and kp: "kept t1 w1 ?t2 ?w2"
    using run_calls_settled [of t1 w1 cs] by blast+
  from kp have hp: "heap ?w2 = heap w1" by (simp add: kept_def)
  from s1 kp have s2: "settled ?t2 ?w2" by (rule kept_settled)
  from kp sl1 td1 assms(4-7) assms(9)
  have sl2: "daysElement ?t2 = Some d" "hoursElement ?t2 = Some h"
    "minutesElement ?t2 = Some m" "secondsElement ?t2 = Some s"
    and le2: "targetDate ?t2 \<le> now1"
    by (simp_all add: kept_def slots_def)
  from updateDisplay_settled [OF s2 le2]
  have o1: "\<not> has_thrown ?out"
    and o2: "kept ?t2 ?w2 (outcome_timer ?out) (outcome_world ?out)"
    and o3: "active (outcome_world ?out) = active ?w2 - held ?t2"
    and o4: "nextHandle (outcome_world ?out) = nextHandle ?w2"
    and o5: "\<not> truthy (timerInterval (outcome_timer ?out))"
    by blast+
  from o2 hp have o6: "heap (outcome_world ?out) = heap w1" by (simp add: kept_def)
  note o7 = updateDisplay_expired_effects(1) [OF le2 sl2, of ?w2]
  have o8: "outcome_timer ?out = ?t2 \<and> active (outcome_world ?out) = active ?w2"
    if "\<not> truthy (timerInterval ?t2)"
  proof -
    from that have "held ?t2 = {}"
      by (auto simp: held_def truthy_def split: option.splits)
    moreover have "outcome_timer ?out = ?t2"
      using updateDisplay_expired_effects(2) [OF le2 sl2, of ?w2] stop_falsy [OF that, of ?w2]
      by simp
    ultimately show ?thesis using o3 by simp
  qed
  from nothrow hp o1 o6 o7 o5 o3 o4 o8 show ?thesis
    by (simp only: Let_def) blast
qed

theorem tick_after_expiry_rewrites_zeros_witness:
  "samples (Start 5000) full_page
   \<and> not_before (targetDate expiring_timer) (Start 5000)
   \<and> list_all (not_before (targetDate expiring_timer)) [Stop, Start 5500]
   \<and> targetDate expiring_timer \<le> 6000
   \<and> timerInterval (outcome_timer (start 5000 expiring_timer full_page)) = Some 1
   \<and> active (outcome_world (start 5000 expiring_timer full_page)) = {1}
   \<and> \<not> has_thrown (updateDisplay 6000 (outcome_timer (start 5000 expiring_timer full_page))
                                        (outcome_world (start 5000 expiring_timer full_page)))
   \<and> heap (outcome_world
        (updateDisplay 6000 (outcome_timer (start 5000 expiring_timer full_page))
                            (outcome_world (start 5000 expiring_timer full_page))))
      = heap (outcome_world (start 5000 expiring_timer full_page))
   \<and> active (outcome_world
        (updateDisplay 6000 (outcome_timer (start 5000 expiring_timer full_page))
                            (outcome_world (start 5000 expiring_timer full_page)))) = {}
   \<and> \<not> has_thrown (run_calls [Stop, Start 5500]
                        (outcome_timer (start 5000 expiring_timer full_page))
                        (outcome_world (start 5000 expiring_timer full_page)))
   \<and> heap (outcome_world (run_calls [Stop, Start 5500]
                        (outcome_timer (start 5000 expiring_timer full_page))
                        (outcome_world (start 5000 expiring_timer full_page))))
      = heap (outcome_world (start 5000 expiring_timer full_page))"
proof -
  let ?t1 = "outcome_timer (start 5000 expiring_timer full_page)"
  let ?w1 = "outcome_world (start 5000 expiring_timer full_page)"
  have sm: "samples (Start 5000) full_page" by simp
  have nb: "not_before (targetDate expiring_timer) (Start 5000)"
    and later: "list_all (not_before (targetDate expiring_timer)) [Stop, Start 5500]"
    and none: "list_all (not_before (targetDate expiring_timer)) []"
    and le: "targetDate expiring_timer \<le> 6000"
    and sl: "daysElement expiring_timer = Some 1" "hoursElement expiring_timer = Some 2"
      "minutesElement expiring_timer = Some 3" "secondsElement expiring_timer = Some 4"
    by (simp_all add: expiring_timer_eq)
  have ev: "\<not> has_thrown (start 5000 expiring_timer full_page)
      \<and> timerInterval ?t1 = Some 1 \<and> active ?w1 = {1}"
    by (simp add: start_def updateDisplay_def calculateTimeRemaining_def set_textContent_def
        write_text_def emit_def handleExpiredEvent_def stop_def disable_notify_def Let_def
        expiring_timer_eq full_page_def page_of_def has_thrown_def outcome_timer_def
        outcome_world_def)
  then have ret: "run_call (Start 5000) expiring_timer full_page = Returned ?t1 ?w1"
    by (cases "start 5000 expiring_timer full_page")
      (simp_all add: has_thrown_def outcome_timer_def outcome_world_def)
  from ev have hd: "held ?t1 = {1}" and act: "active ?w1 = {1}"
    by (simp_all add: held_def)
  note direct = tick_after_expiry_rewrites_zeros [OF sm nb ret sl none le]
  then have a: "\<not> has_thrown (updateDisplay 6000 ?t1 ?w1)"
    and b: "heap (outcome_world (updateDisplay 6000 ?t1 ?w1)) = heap ?w1"
    and "active (outcome_world (updateDisplay 6000 ?t1 ?w1)) = active ?w1 - held ?t1"
    by (simp_all add: Let_def outcome_timer_def outcome_world_def)
  then have c: "active (outcome_world (updateDisplay 6000 ?t1 ?w1)) = {}"
    by (simp only: act hd Diff_cancel)
  note after = tick_after_expiry_rewrites_zeros [OF sm nb ret sl later le]
  then have d: "\<not> has_thrown (run_calls [Stop, Start 5500] ?t1 ?w1)"
    and e: "heap (outcome_world (run_calls [Stop, Start 5500] ?t1 ?w1)) = heap ?w1"
    by blast+
  from sm nb later le ev a b c d e show ?thesis by blast
qed

end
